theory Spec2Isabelle
  imports Main "HOL-Library.Word"
begin

section \<open>JavaScript values\<close>

text \<open>
  The weather server is the compiled module \<^verbatim>\<open>build/weather-server/index.js\<close>. Its two
  request handlers work on JavaScript strings, on values parsed from JSON (the tool
  arguments, the upstream payloads) and on the cache, a \<^verbatim>\<open>Map\<close> owned by the server object.

  A JavaScript string is a sequence of 16-bit code units; the regular expression of the
  read handler (no \<^verbatim>\<open>u\<close> flag) and \<^verbatim>\<open>JSON.stringify\<close> work on these units. A literal
  of the source is written \<open>js ''...''\<close>.
\<close>

type_synonym char16 = "16 word"
type_synonym jsstring = "char16 list"

definition js :: "string \<Rightarrow> jsstring" where
  "js s = map of_char s"

text \<open>
  Numbers. The finite numbers of the model are the integers: day counts, sample counts,
  clock readings. A double with a fractional part is not modelled (its arithmetic and its
  decimal rendering are floating point); the model is exact for integers of magnitude up
  to \<open>2 ^ 53\<close>, where doubles are.
\<close>

datatype jsnum = Finite int | NaN | Infinity | NegInfinity

datatype jsval =
    Undefined
  | Null
  | Boolean bool
  | Number jsnum
  | String jsstring
  | Array "jsval list"
  | Object "(jsstring \<times> jsval) list"

text \<open>
  An \<open>Object\<close> lists the own properties of a plain object in enumeration order, as
  \<^verbatim>\<open>JSON.parse\<close> or an object literal creates them; a property is looked up with
  \<open>map_of\<close>; the keys of an object are distinct. Properties inherited from the
  prototypes (\<^verbatim>\<open>constructor\<close>, the array and string methods) are not modelled: the
  program reads none of them.
\<close>

datatype fault_code = InvalidRequest | MethodNotFound | InvalidParams | InternalError

text \<open>
  What a handler can throw: an \<^verbatim>\<open>McpError\<close> built by the handler (code and message as
  passed to the constructor), a \<^verbatim>\<open>TypeError\<close> of a property read on \<^verbatim>\<open>undefined\<close> or
  \<^verbatim>\<open>null\<close> (or of a failed conversion to a string), the \<^verbatim>\<open>URIError\<close> of
  \<^verbatim>\<open>decodeURIComponent\<close>, or an error of the HTTP client that is rethrown as it is.
\<close>

datatype fault = McpError fault_code jsstring | TypeError | URIError | Rethrown jsstring

subsection \<open>Operators\<close>

fun typeof :: "jsval \<Rightarrow> jsstring" where
  "typeof Undefined = js ''undefined''"
| "typeof Null = js ''object''"
| "typeof (Boolean b) = js ''boolean''"
| "typeof (Number n) = js ''number''"
| "typeof (String s) = js ''string''"
| "typeof (Array xs) = js ''object''"
| "typeof (Object kvs) = js ''object''"

text \<open>Truthiness, for \<^verbatim>\<open>||\<close>: \<^verbatim>\<open>0\<close>, \<^verbatim>\<open>NaN\<close>, the empty string, \<^verbatim>\<open>null\<close>,
  \<^verbatim>\<open>undefined\<close> and \<^verbatim>\<open>false\<close> are falsy.\<close>

fun truthy :: "jsval \<Rightarrow> bool" where
  "truthy Undefined = False"
| "truthy Null = False"
| "truthy (Boolean b) = b"
| "truthy (Number n) = (n \<noteq> Finite 0 \<and> n \<noteq> NaN)"
| "truthy (String s) = (s \<noteq> [])"
| "truthy (Array xs) = True"
| "truthy (Object kvs) = True"

definition or_else :: "jsval \<Rightarrow> jsval \<Rightarrow> jsval" where
  \<comment> \<open>\<^verbatim>\<open>a || b\<close>\<close>
  "or_else a b = (if truthy a then a else b)"

definition nullish :: "jsval \<Rightarrow> bool" where
  "nullish v \<longleftrightarrow> v = Undefined \<or> v = Null"

definition coalesce :: "jsval \<Rightarrow> jsval \<Rightarrow> jsval" where
  \<comment> \<open>\<^verbatim>\<open>a ?? b\<close>\<close>
  "coalesce a b = (if nullish a then b else a)"

text \<open>
  A property read \<^verbatim>\<open>v.name\<close>, for the names the program reads (none is an index, none is
  inherited). On \<^verbatim>\<open>undefined\<close> and \<^verbatim>\<open>null\<close> it throws; a primitive or an array has no
  such own property, apart from \<^verbatim>\<open>length\<close>.
\<close>

fun get_prop :: "jsval \<Rightarrow> jsstring \<Rightarrow> fault + jsval" where
  "get_prop Undefined k = Inl TypeError"
| "get_prop Null k = Inl TypeError"
| "get_prop (Boolean b) k = Inr Undefined"
| "get_prop (Number n) k = Inr Undefined"
| "get_prop (String s) k =
     Inr (if k = js ''length'' then Number (Finite (int (length s))) else Undefined)"
| "get_prop (Array xs) k =
     Inr (if k = js ''length'' then Number (Finite (int (length xs))) else Undefined)"
| "get_prop (Object kvs) k =
     Inr (case map_of kvs k of None \<Rightarrow> Undefined | Some v \<Rightarrow> v)"

text \<open>The indexed read \<^verbatim>\<open>v[0]\<close>: the first element of an array, the first code unit of
  a string (as a string), the property \<^verbatim>\<open>"0"\<close> of an object.\<close>

fun get_0 :: "jsval \<Rightarrow> fault + jsval" where
  "get_0 Undefined = Inl TypeError"
| "get_0 Null = Inl TypeError"
| "get_0 (Boolean b) = Inr Undefined"
| "get_0 (Number n) = Inr Undefined"
| "get_0 (String s) = Inr (case s of [] \<Rightarrow> Undefined | c # cs \<Rightarrow> String [c])"
| "get_0 (Array xs) = Inr (case xs of [] \<Rightarrow> Undefined | x # ys \<Rightarrow> x)"
| "get_0 (Object kvs) = Inr (case map_of kvs (js ''0'') of None \<Rightarrow> Undefined | Some v \<Rightarrow> v)"

subsection \<open>Numbers as text\<close>

definition digit :: "nat \<Rightarrow> char16" where
  "digit d = of_nat (48 + d)"

fun digits :: "nat \<Rightarrow> jsstring" where
  "digits n = (if n < 10 then [digit n] else digits (n div 10) @ [digit (n mod 10)])"

declare digits.simps [simp del]

fun Number_toString :: "jsnum \<Rightarrow> jsstring" where
  "Number_toString (Finite i) = (if i < 0 then js ''-'' @ digits (nat (- i)) else digits (nat i))"
| "Number_toString NaN = js ''NaN''"
| "Number_toString Infinity = js ''Infinity''"
| "Number_toString NegInfinity = js ''-Infinity''"

fun num_min :: "jsnum \<Rightarrow> jsnum \<Rightarrow> jsnum" where
  "num_min NaN b = NaN"
| "num_min a NaN = NaN"
| "num_min NegInfinity b = NegInfinity"
| "num_min a NegInfinity = NegInfinity"
| "num_min Infinity b = b"
| "num_min a Infinity = a"
| "num_min (Finite i) (Finite j) = Finite (min i j)"

fun num_times :: "jsnum \<Rightarrow> jsnum \<Rightarrow> jsnum" where
  "num_times NaN b = NaN"
| "num_times a NaN = NaN"
| "num_times (Finite i) (Finite j) = Finite (i * j)"
| "num_times (Finite i) Infinity = (if i = 0 then NaN else if 0 < i then Infinity else NegInfinity)"
| "num_times (Finite i) NegInfinity = (if i = 0 then NaN else if 0 < i then NegInfinity else Infinity)"
| "num_times Infinity (Finite j) = (if j = 0 then NaN else if 0 < j then Infinity else NegInfinity)"
| "num_times NegInfinity (Finite j) = (if j = 0 then NaN else if 0 < j then NegInfinity else Infinity)"
| "num_times Infinity Infinity = Infinity"
| "num_times Infinity NegInfinity = NegInfinity"
| "num_times NegInfinity Infinity = NegInfinity"
| "num_times NegInfinity NegInfinity = Infinity"

text \<open>
  \<^verbatim>\<open>Math.min(a, b)\<close> and \<^verbatim>\<open>a * b\<close> convert an operand that is not a number first; that
  conversion is not modelled, and the tool handler reaches both only with numbers (lemma
  \<open>effective_days_number\<close> below).
\<close>

fun Math_min :: "jsval \<Rightarrow> jsval \<Rightarrow> jsval" where
  "Math_min (Number a) (Number b) = Number (num_min a b)"
| "Math_min a b = undefined"

fun multiply :: "jsval \<Rightarrow> jsval \<Rightarrow> jsval" where
  "multiply (Number a) (Number b) = Number (num_times a b)"
| "multiply a b = undefined"

subsection \<open>Conversion to a string\<close>

fun join :: "jsstring \<Rightarrow> jsstring list \<Rightarrow> jsstring" where
  "join sep [] = []"
| "join sep [x] = x"
| "join sep (x # y # ys) = x @ sep @ join sep (y # ys)"

fun ToString :: "jsval \<Rightarrow> jsstring option" where
  "ToString Undefined = Some (js ''undefined'')"
| "ToString Null = Some (js ''null'')"
| "ToString (Boolean b) = Some (if b then js ''true'' else js ''false'')"
| "ToString (Number n) = Some (Number_toString n)"
| "ToString (String s) = Some s"
| "ToString (Array xs) =
     map_option (join (js '',''))
       (those (map (\<lambda>x. if x = Undefined \<or> x = Null then Some [] else ToString x) xs))"
| "ToString (Object kvs) =
     (if map_of kvs (js ''toString'') = None then Some (js ''[object Object]'') else None)"

subsection \<open>JSON.stringify\<close>

definition hexdigit :: "nat \<Rightarrow> char16" where
  "hexdigit n = (if n < 10 then of_nat (48 + n) else of_nat (87 + n))"

definition unicode_escape :: "char16 \<Rightarrow> jsstring" where
  "unicode_escape c =
     [0x5C, 0x75, hexdigit (unat c div 4096), hexdigit (unat c div 256 mod 16),
      hexdigit (unat c div 16 mod 16), hexdigit (unat c mod 16)]"

definition lead_surrogate :: "char16 \<Rightarrow> bool" where
  "lead_surrogate c \<longleftrightarrow> 0xD800 \<le> c \<and> c \<le> 0xDBFF"

definition trail_surrogate :: "char16 \<Rightarrow> bool" where
  "trail_surrogate c \<longleftrightarrow> 0xDC00 \<le> c \<and> c \<le> 0xDFFF"

fun quote_units :: "jsstring \<Rightarrow> jsstring" where
  "quote_units [] = []"
| "quote_units (c # cs) =
     (if c = 0x08 then [0x5C, 0x62] @ quote_units cs
      else if c = 0x09 then [0x5C, 0x74] @ quote_units cs
      else if c = 0x0A then [0x5C, 0x6E] @ quote_units cs
      else if c = 0x0C then [0x5C, 0x66] @ quote_units cs
      else if c = 0x0D then [0x5C, 0x72] @ quote_units cs
      else if c = 0x22 then [0x5C, 0x22] @ quote_units cs
      else if c = 0x5C then [0x5C, 0x5C] @ quote_units cs
      else if c < 0x20 then unicode_escape c @ quote_units cs
      else if lead_surrogate c then
        (case cs of
           [] \<Rightarrow> unicode_escape c
         | d # ds \<Rightarrow>
             if trail_surrogate d then c # d # quote_units ds
             else unicode_escape c @ quote_units cs)
      else if trail_surrogate c then unicode_escape c @ quote_units cs
      else c # quote_units cs)"

definition QuoteJSONString :: "jsstring \<Rightarrow> jsstring" where
  "QuoteJSONString s = [0x22] @ quote_units s @ [0x22]"

fun serialize :: "jsstring \<Rightarrow> jsval \<Rightarrow> jsstring option" where
  "serialize ind Undefined = None"
| "serialize ind Null = Some (js ''null'')"
| "serialize ind (Boolean b) = Some (if b then js ''true'' else js ''false'')"
| "serialize ind (Number n) =
     Some (case n of Finite i \<Rightarrow> Number_toString n | _ \<Rightarrow> js ''null'')"
| "serialize ind (String s) = Some (QuoteJSONString s)"
| "serialize ind (Array xs) =
     (let items = map (\<lambda>x. case serialize (ind @ js ''  '') x of
                               None \<Rightarrow> js ''null'' | Some t \<Rightarrow> t) xs
      in if items = [] then Some (js ''[]'')
         else Some (js ''['' @ [0x0A] @ ind @ js ''  '' @
                    join (js '','' @ [0x0A] @ ind @ js ''  '') items @
                    [0x0A] @ ind @ js '']''))"
| "serialize ind (Object kvs) =
     (let members = concat (map (\<lambda>(k, v). case serialize (ind @ js ''  '') v of
                               None \<Rightarrow> []
                             | Some t \<Rightarrow> [QuoteJSONString k @ js '': '' @ t]) kvs)
      in if members = [] then Some (js ''{}'')
         else Some (js ''{'' @ [0x0A] @ ind @ js ''  '' @
                    join (js '','' @ [0x0A] @ ind @ js ''  '') members @
                    [0x0A] @ ind @ js ''}''))"

definition JSON_stringify :: "jsval \<Rightarrow> jsval" where
  \<comment> \<open>\<^verbatim>\<open>JSON.stringify(v, null, 2)\<close>\<close>
  "JSON_stringify v = (case serialize [] v of None \<Rightarrow> Undefined | Some t \<Rightarrow> String t)"

subsection \<open>decodeURIComponent\<close>

definition hex_value :: "char16 \<Rightarrow> nat option" where
  "hex_value c =
     (if 0x30 \<le> c \<and> c \<le> 0x39 then Some (unat c - 0x30)
      else if 0x41 \<le> c \<and> c \<le> 0x46 then Some (unat c - 0x41 + 10)
      else if 0x61 \<le> c \<and> c \<le> 0x66 then Some (unat c - 0x61 + 10)
      else None)"

fun hex_octet :: "jsstring \<Rightarrow> (nat \<times> jsstring) option" where
  "hex_octet (p # a # b # rest) =
     (if p = 0x25 then
        (case (hex_value a, hex_value b) of
           (Some x, Some y) \<Rightarrow> Some (16 * x + y, rest)
         | _ \<Rightarrow> None)
      else None)"
| "hex_octet s = None"

definition continuation :: "nat \<Rightarrow> bool" where
  "continuation b \<longleftrightarrow> 0x80 \<le> b \<and> b < 0xC0"

definition utf8_2 :: "nat \<Rightarrow> nat \<Rightarrow> nat option" where
  "utf8_2 b0 b1 =
     (let cp = (b0 - 0xC0) * 64 + (b1 - 0x80)
      in if continuation b1 \<and> 0x80 \<le> cp then Some cp else None)"

definition utf8_3 :: "nat \<Rightarrow> nat \<Rightarrow> nat \<Rightarrow> nat option" where
  "utf8_3 b0 b1 b2 =
     (let cp = (b0 - 0xE0) * 4096 + (b1 - 0x80) * 64 + (b2 - 0x80)
      in if continuation b1 \<and> continuation b2 \<and> 0x800 \<le> cp \<and> \<not> (0xD800 \<le> cp \<and> cp < 0xE000)
         then Some cp else None)"

definition utf8_4 :: "nat \<Rightarrow> nat \<Rightarrow> nat \<Rightarrow> nat \<Rightarrow> nat option" where
  "utf8_4 b0 b1 b2 b3 =
     (let cp = (b0 - 0xF0) * 262144 + (b1 - 0x80) * 4096 + (b2 - 0x80) * 64 + (b3 - 0x80)
      in if continuation b1 \<and> continuation b2 \<and> continuation b3 \<and> 0x10000 \<le> cp \<and> cp < 0x110000
         then Some cp else None)"

definition UTF16EncodeCodePoint :: "nat \<Rightarrow> jsstring" where
  "UTF16EncodeCodePoint cp =
     (if cp < 0x10000 then [of_nat cp]
      else [of_nat (0xD800 + (cp - 0x10000) div 1024), of_nat (0xDC00 + (cp - 0x10000) mod 1024)])"

function decodeURIComponent :: "jsstring \<Rightarrow> jsstring option" where
  "decodeURIComponent [] = Some []"
| "decodeURIComponent (c # cs) =
     (if c \<noteq> 0x25 then map_option ((#) c) (decodeURIComponent cs)
      else
        (case hex_octet (c # cs) of
           None \<Rightarrow> None
         | Some (b0, r1) \<Rightarrow>
             if b0 < 0x80 then map_option ((#) (of_nat b0)) (decodeURIComponent r1)
             else if b0 < 0xC0 \<or> 0xF8 \<le> b0 then None
             else
               (case hex_octet r1 of
                  None \<Rightarrow> None
                | Some (b1, r2) \<Rightarrow>
                    if b0 < 0xE0 then
                      (case utf8_2 b0 b1 of
                         None \<Rightarrow> None
                       | Some cp \<Rightarrow> map_option ((@) (UTF16EncodeCodePoint cp)) (decodeURIComponent r2))
                    else
                      (case hex_octet r2 of
                         None \<Rightarrow> None
                       | Some (b2, r3) \<Rightarrow>
                           if b0 < 0xF0 then
                             (case utf8_3 b0 b1 b2 of
                                None \<Rightarrow> None
                              | Some cp \<Rightarrow>
                                  map_option ((@) (UTF16EncodeCodePoint cp)) (decodeURIComponent r3))
                           else
                             (case hex_octet r3 of
                                None \<Rightarrow> None
                              | Some (b3, r4) \<Rightarrow>
                                  (case utf8_4 b0 b1 b2 b3 of
                                     None \<Rightarrow> None
                                   | Some cp \<Rightarrow>
                                       map_option ((@) (UTF16EncodeCodePoint cp))
                                         (decodeURIComponent r4)))))))"
  by pat_completeness auto
termination
proof -
  have shorter: "length r < length s" if "hex_octet s = Some (b, r)" for s b r
    using that by (induction s rule: hex_octet.induct) (auto split: if_splits option.splits)
  show ?thesis
    by (relation "measure length") (auto dest!: shorter)
qed

subsection \<open>The pattern of the resource URI\<close>

text \<open>
  \<^verbatim>\<open>uri.match(/^weather:\/\/(.+)\/current$/)\<close>. The pattern is anchored at both ends, has no
  flag, and \<^verbatim>\<open>.\<close> matches every code unit but the four line terminators. The matcher
  works as the backtracking engine does: after the literal prefix, \<^verbatim>\<open>.+\<close> first takes
  the longest run of units it can, then gives them back one at a time until the rest of
  the input is exactly \<^verbatim>\<open>/current\<close>; it needs at least one unit. The result is
  \<^verbatim>\<open>match[1]\<close>, or \<open>None\<close> for \<^verbatim>\<open>null\<close>.
\<close>

definition line_terminator :: "char16 \<Rightarrow> bool" where
  "line_terminator c \<longleftrightarrow> c = 0x0A \<or> c = 0x0D \<or> c = 0x2028 \<or> c = 0x2029"

fun literal :: "jsstring \<Rightarrow> jsstring \<Rightarrow> jsstring option" where
  "literal [] s = Some s"
| "literal (p # ps) [] = None"
| "literal (p # ps) (c # cs) = (if p = c then literal ps cs else None)"

fun dot_plus_then :: "nat \<Rightarrow> jsstring \<Rightarrow> jsstring \<Rightarrow> jsstring option" where
  "dot_plus_then 0 suffix s = None"
| "dot_plus_then (Suc n) suffix s =
     (if drop (Suc n) s = suffix then Some (take (Suc n) s) else dot_plus_then n suffix s)"

definition uri_match :: "jsstring \<Rightarrow> jsstring option" where
  "uri_match uri =
     (case literal (js ''weather://'') uri of
        None \<Rightarrow> None
      | Some rest \<Rightarrow>
          dot_plus_then (length (takeWhile (\<lambda>c. \<not> line_terminator c) rest)) (js ''/current'') rest)"

section \<open>The server\<close>

text \<open>
  The cache is the \<^verbatim>\<open>Map\<close> of the server object: a key is a string, an entry holds the
  payload and the clock reading \<^verbatim>\<open>Date.now()\<close> (milliseconds) of the request that stored it.
\<close>

record cache_entry =
  data :: jsval
  timestamp :: int

type_synonym cache = "jsstring \<rightharpoonup> cache_entry"

definition cacheDuration :: int where
  "cacheDuration = 5 * 60 * 1000"

text \<open>
  The upstream API is reached through \<^verbatim>\<open>this.axiosInstance.get(path, {params})\<close>. The
  promise resolves with a response, of which the handlers read \<^verbatim>\<open>response.data\<close>, or is
  rejected: with an error that \<^verbatim>\<open>axios.isAxiosError\<close> recognises, of which the handlers
  read \<^verbatim>\<open>error.response\<close> (absent when no response arrived), its \<^verbatim>\<open>data\<close>, and
  \<^verbatim>\<open>error.message\<close>; or with any other error.
\<close>

datatype request = Get jsstring "(jsstring \<times> jsval) list"

datatype response =
    Resolved jsval
  | AxiosError "jsval option" jsstring
  | OtherError jsstring

text \<open>
  What a request reads from outside the server: the upstream's answer to each call, the
  clock \<^verbatim>\<open>Date.now()\<close>, and the text of \<^verbatim>\<open>new Date().toISOString()\<close>.
\<close>

record env =
  upstream :: "request \<Rightarrow> response"
  now :: int
  toISOString :: jsstring

text \<open>
  A handler runs from its first statement to its \<^verbatim>\<open>return\<close> or \<^verbatim>\<open>throw\<close>; what it
  gives back here is its result, the cache it leaves, and the upstream calls it made, in
  order. (Two requests in flight at once, interleaved at the \<^verbatim>\<open>await\<close>, are not
  modelled.)
\<close>

record 'r reply =
  result :: "fault + 'r"
  cache :: cache
  calls :: "request list"

record resource_content =
  uri :: jsstring
  mimeType :: jsstring
  text' :: jsval

datatype content_block = Text jsval  \<comment> \<open>\<^verbatim>\<open>{ type: 'text', text: ... }\<close>\<close>

record tool_result =
  content :: "content_block list"
  isError :: "bool option"  \<comment> \<open>\<open>None\<close>: the property is absent\<close>

definition isValidForecastArgs :: "jsval \<Rightarrow> bool" where
  "isValidForecastArgs args \<longleftrightarrow>
     typeof args = js ''object'' \<and>
     args \<noteq> Null \<and>
     (case get_prop args (js ''city'') of
        Inl e \<Rightarrow> False | Inr city \<Rightarrow> typeof city = js ''string'') \<and>
     (case get_prop args (js ''days'') of
        Inl e \<Rightarrow> False | Inr days \<Rightarrow> days = Undefined \<or> typeof days = js ''number'')"

definition fresh :: "int \<Rightarrow> cache_entry option \<Rightarrow> cache_entry option" where
  \<comment> \<open>the entry, when \<^verbatim>\<open>cached && now - cached.timestamp < this.cacheDuration\<close>\<close>
  "fresh t cached =
     (case cached of
        None \<Rightarrow> None
      | Some ent \<Rightarrow> if t - timestamp ent < cacheDuration then Some ent else None)"

definition and_then :: "fault + 'a \<Rightarrow> ('a \<Rightarrow> fault + 'b) \<Rightarrow> fault + 'b" where
  "and_then x f = (case x of Inl e \<Rightarrow> Inl e | Inr v \<Rightarrow> f v)"

definition weatherData :: "jsval \<Rightarrow> jsstring \<Rightarrow> fault + jsval" where
  "weatherData d stamp =
     and_then (get_prop d (js ''main'')) (\<lambda>main.
     and_then (get_prop main (js ''temp'')) (\<lambda>temperature.
     and_then (get_prop d (js ''weather'')) (\<lambda>weather.
     and_then (get_0 weather) (\<lambda>weather0.
     and_then (get_prop weather0 (js ''description'')) (\<lambda>conditions.
     and_then (get_prop main (js ''humidity'')) (\<lambda>humidity.
     and_then (get_prop d (js ''wind'')) (\<lambda>wind.
     and_then (get_prop wind (js ''speed'')) (\<lambda>wind_speed.
       Inr (Object
         [(js ''temperature'', temperature),
          (js ''conditions'', conditions),
          (js ''humidity'', humidity),
          (js ''wind_speed'', wind_speed),
          (js ''timestamp'', String stamp)])))))))))"

definition error_text :: "jsval option \<Rightarrow> jsstring \<Rightarrow> fault + jsstring" where
  \<comment> \<open>\<^verbatim>\<open>`Weather API error: ${error.response?.data.message ?? error.message}`\<close>\<close>
  "error_text response_data message =
     and_then (case response_data of
             None \<Rightarrow> Inr Undefined
           | Some d \<Rightarrow> get_prop d (js ''message'')) (\<lambda>m.
       case ToString (coalesce m (String message)) of
         None \<Rightarrow> Inl TypeError
       | Some s \<Rightarrow> Inr (js ''Weather API error: '' @ s))"

text \<open>
  The handler registered for \<^verbatim>\<open>ReadResourceRequestSchema\<close>, applied to
  \<^verbatim>\<open>request.params.uri\<close>. \<^verbatim>\<open>decodeURIComponent\<close> runs outside the \<^verbatim>\<open>try\<close>; the
  \<^verbatim>\<open>catch\<close> block turns an error of the HTTP client into an \<^verbatim>\<open>McpError\<close> and rethrows
  anything else, also what the reads of the payload throw.
\<close>

definition ReadResource :: "env \<Rightarrow> cache \<Rightarrow> jsstring \<Rightarrow> resource_content list reply" where
  "ReadResource e c u =
     (case uri_match u of
        None \<Rightarrow>
          \<lparr>result = Inl (McpError InvalidRequest (js ''Invalid URI format: '' @ u)),
           cache = c, calls = []\<rparr>
      | Some segment \<Rightarrow>
          (case decodeURIComponent segment of
             None \<Rightarrow> \<lparr>result = Inl URIError, cache = c, calls = []\<rparr>
           | Some city \<Rightarrow>
               (let cacheKey = js ''current_weather_'' @ city in
                case fresh (now e) (c cacheKey) of
                  Some cached \<Rightarrow>
                    \<lparr>result = Inr [\<lparr>uri = u, mimeType = js ''application/json'',
                                     text' = JSON_stringify (data cached)\<rparr>],
                     cache = c, calls = []\<rparr>
                | None \<Rightarrow>
                    (let req = Get (js ''weather'') [(js ''q'', String city)] in
                     case upstream e req of
                       Resolved d \<Rightarrow>
                         (case weatherData d (toISOString e) of
                            Inl err \<Rightarrow> \<lparr>result = Inl err, cache = c, calls = [req]\<rparr>
                          | Inr w \<Rightarrow>
                              \<lparr>result = Inr [\<lparr>uri = u, mimeType = js ''application/json'',
                                               text' = JSON_stringify w\<rparr>],
                               cache = c(cacheKey \<mapsto> \<lparr>data = w, timestamp = now e\<rparr>),
                               calls = [req]\<rparr>)
                     | AxiosError response_data message \<Rightarrow>
                         (case error_text response_data message of
                            Inl err \<Rightarrow> \<lparr>result = Inl err, cache = c, calls = [req]\<rparr>
                          | Inr t \<Rightarrow>
                              \<lparr>result = Inl (McpError InternalError t),
                               cache = c, calls = [req]\<rparr>)
                     | OtherError m \<Rightarrow>
                         \<lparr>result = Inl (Rethrown m), cache = c, calls = [req]\<rparr>))))"

text \<open>
  The handler registered for \<^verbatim>\<open>CallToolRequestSchema\<close>, applied to
  \<^verbatim>\<open>request.params.name\<close> and \<^verbatim>\<open>request.params.arguments\<close>. Its \<^verbatim>\<open>catch\<close> block
  returns an error of the HTTP client as content and rethrows anything else.
\<close>

definition effective_days :: "jsval \<Rightarrow> jsval" where
  \<comment> \<open>\<^verbatim>\<open>Math.min(request.params.arguments.days || 3, 5)\<close>\<close>
  "effective_days days_arg = Math_min (or_else days_arg (Number (Finite 3))) (Number (Finite 5))"

definition CallTool :: "env \<Rightarrow> cache \<Rightarrow> jsstring \<Rightarrow> jsval \<Rightarrow> tool_result reply" where
  "CallTool e c name arguments =
     (if name \<noteq> js ''get_forecast'' then
        \<lparr>result = Inl (McpError MethodNotFound (js ''Unknown tool: '' @ name)),
         cache = c, calls = []\<rparr>
      else if \<not> isValidForecastArgs arguments then
        \<lparr>result = Inl (McpError InvalidParams (js ''Invalid forecast arguments'')),
         cache = c, calls = []\<rparr>
      else
        (case get_prop arguments (js ''city'') of
           Inl err \<Rightarrow> \<lparr>result = Inl err, cache = c, calls = []\<rparr>
         | Inr city \<Rightarrow>
        (case get_prop arguments (js ''days'') of
           Inl err \<Rightarrow> \<lparr>result = Inl err, cache = c, calls = []\<rparr>
         | Inr days_arg \<Rightarrow>
        (let days = effective_days days_arg in
         case (ToString city, ToString days) of
           (Some city_text, Some days_text) \<Rightarrow>
             (let cacheKey = js ''forecast_'' @ city_text @ js ''_'' @ days_text in
              case fresh (now e) (c cacheKey) of
                Some cached \<Rightarrow>
                  \<lparr>result = Inr \<lparr>content = [Text (JSON_stringify (data cached))],
                                  isError = None\<rparr>,
                   cache = c, calls = []\<rparr>
              | None \<Rightarrow>
                  (let req = Get (js ''forecast'')
                               [(js ''q'', city),
                                (js ''cnt'', multiply days (Number (Finite 8)))] in
                   case upstream e req of
                     Resolved d \<Rightarrow>
                       (case get_prop d (js ''list'') of
                          Inl err \<Rightarrow> \<lparr>result = Inl err, cache = c, calls = [req]\<rparr>
                        | Inr list \<Rightarrow>
                            \<lparr>result = Inr \<lparr>content = [Text (JSON_stringify list)],
                                            isError = None\<rparr>,
                             cache = c(cacheKey \<mapsto> \<lparr>data = list, timestamp = now e\<rparr>),
                             calls = [req]\<rparr>)
                   | AxiosError response_data message \<Rightarrow>
                       (case error_text response_data message of
                          Inl err \<Rightarrow> \<lparr>result = Inl err, cache = c, calls = [req]\<rparr>
                        | Inr t \<Rightarrow>
                            \<lparr>result = Inr \<lparr>content = [Text (String t)],
                                            isError = Some True\<rparr>,
                             cache = c, calls = [req]\<rparr>)
                   | OtherError m \<Rightarrow>
                       \<lparr>result = Inl (Rethrown m), cache = c, calls = [req]\<rparr>))
         | _ \<Rightarrow> \<lparr>result = Inl TypeError, cache = c, calls = []\<rparr>))))"

section \<open>Shapes and reachable caches\<close>

text \<open>
  The shape of the tool arguments in words: a plain object with a string \<^verbatim>\<open>city\<close> and
  with \<^verbatim>\<open>days\<close> absent (or \<^verbatim>\<open>undefined\<close>) or a number, of any value.
\<close>

definition forecast_args_shape :: "jsval \<Rightarrow> bool" where
  "forecast_args_shape args =
     (case args of
        Object kvs \<Rightarrow>
          (case map_of kvs (js ''city'') of
             Some (String city) \<Rightarrow>
               (case map_of kvs (js ''days'') of
                  None \<Rightarrow> True
                | Some Undefined \<Rightarrow> True
                | Some (Number n) \<Rightarrow> True
                | Some other \<Rightarrow> False)
           | other \<Rightarrow> False)
      | other \<Rightarrow> False)"

text \<open>
  The shape the specification documents for the tool arguments,
  \<^verbatim>\<open>{ city: string (required), days: number (optional, 1-5) }\<close>: as above, with a
  \<^verbatim>\<open>days\<close> that is present restricted to the range from 1 to 5.
\<close>

definition ForecastArgs :: "jsval \<Rightarrow> bool" where
  "ForecastArgs args =
     (case args of
        Object kvs \<Rightarrow>
          (case map_of kvs (js ''city'') of
             Some (String city) \<Rightarrow>
               (case map_of kvs (js ''days'') of
                  None \<Rightarrow> True
                | Some Undefined \<Rightarrow> True
                | Some (Number (Finite n)) \<Rightarrow> 1 \<le> n \<and> n \<le> 5
                | Some other \<Rightarrow> False)
           | other \<Rightarrow> False)
      | other \<Rightarrow> False)"


section \<open>Sample inputs\<close>

definition london :: jsval where
  "london = Object
     [(js ''main'', Object [(js ''temp'', Number (Finite 12)), (js ''humidity'', Number (Finite 81))]),
      (js ''weather'', Array [Object [(js ''description'', String (js ''light rain''))]]),
      (js ''wind'', Object [(js ''speed'', Number (Finite 4))]),
      (js ''dt'', Number (Finite 1700000000)),
      (js ''list'', Array [Object [(js ''dt'', Number (Finite 1700000000))]])]"

definition e0 :: env where
  "e0 = \<lparr>upstream = (\<lambda>r. Resolved london), now = 1000,
          toISOString = js ''2023-11-14T22:13:20.000Z''\<rparr>"

definition london_args :: "int \<Rightarrow> jsval" where
  \<comment> \<open>\<^verbatim>\<open>{ city: "London", days: n }\<close>\<close>
  "london_args n = Object [(js ''city'', String (js ''London'')), (js ''days'', Number (Finite n))]"



definition london_snapshot :: jsval where
  "london_snapshot = Object
     [(js ''temperature'', Number (Finite 12)),
      (js ''conditions'', String (js ''light rain'')),
      (js ''humidity'', Number (Finite 81)),
      (js ''wind_speed'', Number (Finite 4)),
      (js ''timestamp'', String (js ''2023-11-14T22:13:20.000Z''))]"

definition e_empty :: env where
  \<comment> \<open>the upstream answers 200 with the body \<^verbatim>\<open>{}\<close>\<close>
  "e_empty = \<lparr>upstream = (\<lambda>r. Resolved (Object [])), now = 1000,
               toISOString = js ''2023-11-14T22:13:20.000Z''\<rparr>"

definition e_null :: env where
  \<comment> \<open>the upstream answers with an error status and the JSON body \<^verbatim>\<open>null\<close>\<close>
  "e_null = \<lparr>upstream = (\<lambda>r. AxiosError (Some Null) (js ''Request failed with status code 500'')),
              now = 1000, toISOString = js ''2023-11-14T22:13:20.000Z''\<rparr>"

definition nowhere_args :: jsval where
  \<comment> \<open>\<^verbatim>\<open>{ city: "Nowhere" }\<close>\<close>
  "nowhere_args = Object [(js ''city'', String (js ''Nowhere''))]"

definition warm :: cache where
  \<comment> \<open>the cache after a read of London's weather and a forecast for London at \<open>e0\<close>\<close>
  "warm =
     [js ''current_weather_London'' \<mapsto> \<lparr>data = london_snapshot, timestamp = 1000\<rparr>,
      js ''forecast_London_3'' \<mapsto>
        \<lparr>data = Array [Object [(js ''dt'', Number (Finite 1700000000))]], timestamp = 1000\<rparr>]"

section \<open>Properties\<close>

subsection \<open>The URI pattern\<close>

lemma literal_Some: "literal p s = Some r \<longleftrightarrow> s = p @ r"
  by (induction p s rule: literal.induct) auto

lemma dot_plus_then_Some:
  "n \<le> length s \<Longrightarrow>
   dot_plus_then n suffix s = Some x \<longleftrightarrow> x \<noteq> [] \<and> length x \<le> n \<and> s = x @ suffix"
proof (induction n)
  case 0
  then show ?case by simp
next
  case (Suc n)
  show ?case
  proof (cases "drop (Suc n) s = suffix")
    case True
    have eq: "dot_plus_then (Suc n) suffix s = Some (take (Suc n) s)"
      using True by simp
    have t1: "take (Suc n) s \<noteq> []" using Suc.prems by (cases s) simp_all
    have t2: "s = take (Suc n) s @ suffix" using True append_take_drop_id [of "Suc n" s] by simp
    have t3: "x = take (Suc n) s" if "s = x @ suffix" and "length x \<le> Suc n"
    proof -
      have "length s = Suc n + length suffix" using t2 Suc.prems
        by (metis length_append length_take min.absorb2)
      moreover have "length s = length x + length suffix" using that(1) by simp
      ultimately have "length x = Suc n" by simp
      then show ?thesis using that(1) by simp
    qed
    show ?thesis
    proof
      assume "dot_plus_then (Suc n) suffix s = Some x"
      then have "x = take (Suc n) s" using eq by simp
      then show "x \<noteq> [] \<and> length x \<le> Suc n \<and> s = x @ suffix"
        using t1 t2 by simp
    next
      assume "x \<noteq> [] \<and> length x \<le> Suc n \<and> s = x @ suffix"
      then have "x = take (Suc n) s" using t3 by blast
      then show "dot_plus_then (Suc n) suffix s = Some x" using eq by simp
    qed
  next
    case False
    have eq: "dot_plus_then (Suc n) suffix s = dot_plus_then n suffix s"
      using False by simp
    have ih: "dot_plus_then n suffix s = Some x \<longleftrightarrow> x \<noteq> [] \<and> length x \<le> n \<and> s = x @ suffix"
      using Suc.IH Suc.prems by simp
    have le: "length x \<le> n" if "s = x @ suffix" and "length x \<le> Suc n"
    proof (rule ccontr)
      assume "\<not> length x \<le> n"
      then have "length x = Suc n" using that(2) by simp
      then have "drop (Suc n) s = suffix" using that(1) by simp
      then show False using False by simp
    qed
    show ?thesis unfolding eq ih using le by auto
  qed
qed

lemma uri_match_iff:
  "uri_match u = Some x \<longleftrightarrow>
     u = js ''weather://'' @ x @ js ''/current'' \<and> x \<noteq> [] \<and> (\<forall>c\<in>set x. \<not> line_terminator c)"
proof -
  define P where "P = (\<lambda>c. \<not> line_terminator c)"
  have len: "length x \<le> length (takeWhile P (x @ suffix)) \<longleftrightarrow> (\<forall>c\<in>set x. P c)" for x suffix :: jsstring
  proof
    assume "\<forall>c\<in>set x. P c"
    then show "length x \<le> length (takeWhile P (x @ suffix))" by (simp add: takeWhile_append2)
  next
    assume le: "length x \<le> length (takeWhile P (x @ suffix))"
    show "\<forall>c\<in>set x. P c"
    proof (rule ccontr)
      assume "\<not> (\<forall>c\<in>set x. P c)"
      then obtain c where c: "c \<in> set x" "\<not> P c" by auto
      then have "takeWhile P (x @ suffix) = takeWhile P x" by (simp add: takeWhile_append1)
      moreover have "takeWhile P x \<noteq> x" using c by (metis takeWhile_eq_all_conv)
      then have "length (takeWhile P x) < length x"
        by (metis append_eq_conv_conj le_neq_implies_less length_takeWhile_le takeWhile_dropWhile_id take_all)
      ultimately show False using le by simp
    qed
  qed
  show ?thesis
  proof (cases "literal (js ''weather://'') u")
    case None
    then have "u \<noteq> js ''weather://'' @ r" for r
      by (metis literal_Some option.distinct(1))
    then show ?thesis using None by (auto simp: uri_match_def)
  next
    case (Some rest)
    then have u: "u = js ''weather://'' @ rest" by (simp add: literal_Some)
    have um: "uri_match u = dot_plus_then (length (takeWhile P rest)) (js ''/current'') rest"
      using Some by (simp add: uri_match_def P_def)
    have m: "uri_match u = Some x \<longleftrightarrow>
        x \<noteq> [] \<and> length x \<le> length (takeWhile P rest) \<and> rest = x @ js ''/current''"
      unfolding um by (rule dot_plus_then_Some) (rule length_takeWhile_le)
    have a: "u = js ''weather://'' @ x @ js ''/current'' \<longleftrightarrow> rest = x @ js ''/current''"
      using u by simp
    have b: "length x \<le> length (takeWhile P rest) \<longleftrightarrow> (\<forall>c\<in>set x. \<not> line_terminator c)"
      if "rest = x @ js ''/current''"
      using that len [of x "js ''/current''"] by (simp add: P_def)
    show ?thesis using m a b by blast
  qed
qed

lemma ReadResource_no_match:
  "uri_match u = None \<Longrightarrow>
   ReadResource e c u =
     \<lparr>result = Inl (McpError InvalidRequest (js ''Invalid URI format: '' @ u)),
      cache = c, calls = []\<rparr>"
  by (simp add: ReadResource_def)

subsection \<open>Malformed resource URIs\<close>

text \<open>
  C6. The pattern \<^verbatim>\<open>/^weather:\/\/(.+)\/current$/\<close> fails to match a URI exactly when the
  URI is not \<^verbatim>\<open>weather://\<close>, a non-empty segment free of line terminators, and
  \<^verbatim>\<open>/current\<close> (a URI that lacks the \<^verbatim>\<open>/current\<close> suffix, for one). A read-resource
  request with such a URI fails with an \<^verbatim>\<open>InvalidRequest\<close> error whose message ends with
  the URI; the handler makes no upstream call and leaves the cache as it was (the reply
  does not depend on the cache either: it is not read).
\<close>

theorem invalid_uri_rejected:
  "(uri_match u = None \<longleftrightarrow>
      \<not> (\<exists>x. x \<noteq> [] \<and> list_all (\<lambda>unit. \<not> line_terminator unit) x \<and>
             u = js ''weather://'' @ x @ js ''/current'')) \<and>
   (uri_match u = None \<longrightarrow>
      ReadResource e c u =
        \<lparr>result = Inl (McpError InvalidRequest (js ''Invalid URI format: '' @ u)),
         cache = c, calls = []\<rparr>)"
proof (intro conjI impI)
  have "uri_match u = None \<longleftrightarrow> (\<forall>x. uri_match u \<noteq> Some x)" by auto
  also have "\<dots> \<longleftrightarrow> \<not> (\<exists>x. x \<noteq> [] \<and> list_all (\<lambda>unit. \<not> line_terminator unit) x \<and>
             u = js ''weather://'' @ x @ js ''/current'')"
    unfolding uri_match_iff list_all_iff by blast
  finally show "uri_match u = None \<longleftrightarrow>
      \<not> (\<exists>x. x \<noteq> [] \<and> list_all (\<lambda>unit. \<not> line_terminator unit) x \<and>
             u = js ''weather://'' @ x @ js ''/current'')" .
next
  assume "uri_match u = None"
  then show "ReadResource e c u =
        \<lparr>result = Inl (McpError InvalidRequest (js ''Invalid URI format: '' @ u)),
         cache = c, calls = []\<rparr>"
    by (rule ReadResource_no_match)
qed

theorem invalid_uri_rejected_witness:
  "uri_match (js ''weather://malformed'') = None \<and>
   ReadResource e0 warm (js ''weather://malformed'') =
     \<lparr>result = Inl (McpError InvalidRequest (js ''Invalid URI format: weather://malformed'')),
      cache = warm, calls = []\<rparr>"
proof -
  have h: "uri_match (js ''weather://malformed'') = None"
    by (simp add: uri_match_def js_def line_terminator_def)
  have j: "js ''Invalid URI format: '' @ js ''weather://malformed'' =
      js ''Invalid URI format: weather://malformed''"
    by (simp add: js_def)
  from invalid_uri_rejected [of "js ''weather://malformed''" e0 warm, THEN conjunct2, THEN mp, OF h]
  show ?thesis using h unfolding j by simp
qed

subsection \<open>The cache\<close>



subsection \<open>Reading a resource\<close>

lemma ReadResource_city:
  assumes "uri_match u = Some segment" and "decodeURIComponent segment = Some city"
  shows "ReadResource e c u =
    (case fresh (now e) (c (js ''current_weather_'' @ city)) of
       Some cached \<Rightarrow>
         \<lparr>result = Inr [\<lparr>uri = u, mimeType = js ''application/json'',
                          text' = JSON_stringify (data cached)\<rparr>],
          cache = c, calls = []\<rparr>
     | None \<Rightarrow>
         (case upstream e (Get (js ''weather'') [(js ''q'', String city)]) of
            Resolved d \<Rightarrow>
              (case weatherData d (toISOString e) of
                 Inl err \<Rightarrow>
                   \<lparr>result = Inl err, cache = c,
                    calls = [Get (js ''weather'') [(js ''q'', String city)]]\<rparr>
               | Inr w \<Rightarrow>
                   \<lparr>result = Inr [\<lparr>uri = u, mimeType = js ''application/json'',
                                    text' = JSON_stringify w\<rparr>],
                    cache = c(js ''current_weather_'' @ city \<mapsto> \<lparr>data = w, timestamp = now e\<rparr>),
                    calls = [Get (js ''weather'') [(js ''q'', String city)]]\<rparr>)
          | AxiosError response_data message \<Rightarrow>
              (case error_text response_data message of
                 Inl err \<Rightarrow>
                   \<lparr>result = Inl err, cache = c,
                    calls = [Get (js ''weather'') [(js ''q'', String city)]]\<rparr>
               | Inr t \<Rightarrow>
                   \<lparr>result = Inl (McpError InternalError t), cache = c,
                    calls = [Get (js ''weather'') [(js ''q'', String city)]]\<rparr>)
          | OtherError m \<Rightarrow>
              \<lparr>result = Inl (Rethrown m), cache = c,
               calls = [Get (js ''weather'') [(js ''q'', String city)]]\<rparr>))"
  using assms unfolding ReadResource_def Let_def by simp

subsection \<open>Validated arguments\<close>

lemma typeof_string: "typeof v = js ''string'' \<longleftrightarrow> (\<exists>s. v = String s)"
  by (cases v) (simp_all add: js_def)

lemma typeof_number: "typeof v = js ''number'' \<longleftrightarrow> (\<exists>n. v = Number n)"
  by (cases v) (simp_all add: js_def)

lemma city_not_length: "js ''city'' \<noteq> js ''length''"
  by (simp add: js_def)

lemma isValidForecastArgs_shape: "isValidForecastArgs args = forecast_args_shape args"
proof (cases args)
  case (Object kvs)
  show ?thesis
  proof (cases "map_of kvs (js ''city'')")
    case None
    with Object show ?thesis
      by (simp add: isValidForecastArgs_def forecast_args_shape_def typeof_string js_def)
  next
    case (Some cv)
    note city = this
    show ?thesis
    proof (cases "map_of kvs (js ''days'')")
      case None
      with Object city show ?thesis
        by (cases cv) (simp_all add: isValidForecastArgs_def forecast_args_shape_def typeof_string js_def)
    next
      case (Some dv)
      with Object city show ?thesis
        by (cases cv; cases dv)
           (simp_all add: isValidForecastArgs_def forecast_args_shape_def typeof_string typeof_number, simp_all add: js_def)
    qed
  qed
qed (simp_all add: isValidForecastArgs_def forecast_args_shape_def typeof_string city_not_length, simp_all add: js_def)

lemma effective_days_Undefined: "effective_days Undefined = Number (Finite 3)"
  by (simp add: effective_days_def or_else_def)

lemma effective_days_Number:
  "effective_days (Number n) =
     Number (if n = Finite 0 \<or> n = NaN then Finite 3 else num_min n (Finite 5))"
  by (simp add: effective_days_def or_else_def)

lemma valid_days:
  assumes "isValidForecastArgs args" and "get_prop args (js ''days'') = Inr dv"
  shows "dv = Undefined \<or> (\<exists>n. dv = Number n)"
  using assms by (auto simp: isValidForecastArgs_def typeof_number)

lemma effective_days_number:
  assumes "isValidForecastArgs args" and "get_prop args (js ''days'') = Inr dv"
  shows "\<exists>D. effective_days dv = Number D"
  using valid_days [OF assms] by (auto simp: effective_days_Undefined effective_days_Number)

lemma CallTool_valid:
  assumes "isValidForecastArgs args"
    and "get_prop args (js ''city'') = Inr (String s)"
    and "get_prop args (js ''days'') = Inr dv"
    and "effective_days dv = Number D"
  shows "CallTool e c (js ''get_forecast'') args =
    (case fresh (now e) (c (js ''forecast_'' @ s @ js ''_'' @ Number_toString D)) of
       Some cached \<Rightarrow>
         \<lparr>result = Inr \<lparr>content = [Text (JSON_stringify (data cached))], isError = None\<rparr>,
          cache = c, calls = []\<rparr>
     | None \<Rightarrow>
         (case upstream e (Get (js ''forecast'')
                  [(js ''q'', String s), (js ''cnt'', Number (num_times D (Finite 8)))]) of
            Resolved d \<Rightarrow>
              (case get_prop d (js ''list'') of
                 Inl err \<Rightarrow>
                   \<lparr>result = Inl err, cache = c,
                    calls = [Get (js ''forecast'')
                      [(js ''q'', String s), (js ''cnt'', Number (num_times D (Finite 8)))]]\<rparr>
               | Inr list \<Rightarrow>
                   \<lparr>result = Inr \<lparr>content = [Text (JSON_stringify list)], isError = None\<rparr>,
                    cache = c(js ''forecast_'' @ s @ js ''_'' @ Number_toString D \<mapsto>
                              \<lparr>data = list, timestamp = now e\<rparr>),
                    calls = [Get (js ''forecast'')
                      [(js ''q'', String s), (js ''cnt'', Number (num_times D (Finite 8)))]]\<rparr>)
          | AxiosError response_data message \<Rightarrow>
              (case error_text response_data message of
                 Inl err \<Rightarrow>
                   \<lparr>result = Inl err, cache = c,
                    calls = [Get (js ''forecast'')
                      [(js ''q'', String s), (js ''cnt'', Number (num_times D (Finite 8)))]]\<rparr>
               | Inr t \<Rightarrow>
                   \<lparr>result = Inr \<lparr>content = [Text (String t)], isError = Some True\<rparr>,
                    cache = c,
                    calls = [Get (js ''forecast'')
                      [(js ''q'', String s), (js ''cnt'', Number (num_times D (Finite 8)))]]\<rparr>)
          | OtherError m \<Rightarrow>
              \<lparr>result = Inl (Rethrown m), cache = c,
               calls = [Get (js ''forecast'')
                 [(js ''q'', String s), (js ''cnt'', Number (num_times D (Finite 8)))]]\<rparr>))"
  using assms
  by (simp add: CallTool_def Let_def
      cong del: option.case_cong_weak sum.case_cong_weak response.case_cong_weak)

subsection \<open>Evaluation\<close>

text \<open>The equations that evaluate the handlers on the sample inputs.\<close>

lemmas evaluation =
  js_def digits.simps digit_def or_else_def coalesce_def nullish_def and_then_def
  JSON_stringify_def QuoteJSONString_def lead_surrogate_def trail_surrogate_def
  hex_value_def line_terminator_def uri_match_def
  cacheDuration_def fresh_def isValidForecastArgs_def effective_days_def
  weatherData_def error_text_def ReadResource_def CallTool_def Let_def
  london_def e0_def london_args_def

subsection \<open>Rejected tool calls\<close>

lemma get_prop_fault: "get_prop v k = Inl err \<Longrightarrow> err = TypeError"
  by (cases v) auto

lemma error_text_fault: "error_text rd m = Inl err \<Longrightarrow> err = TypeError"
  by (auto simp: error_text_def and_then_def split: option.splits sum.splits dest: get_prop_fault)

lemma shape_props:
  assumes "forecast_args_shape args"
  obtains s dv where "get_prop args (js ''city'') = Inr (String s)"
    and "get_prop args (js ''days'') = Inr dv"
proof -
  from assms obtain kvs where args: "args = Object kvs"
    by (cases args) (simp_all add: forecast_args_shape_def)
  with assms obtain s where "map_of kvs (js ''city'') = Some (String s)"
    by (auto simp: forecast_args_shape_def split: option.splits jsval.splits)
  with args have "get_prop args (js ''city'') = Inr (String s)" by simp
  moreover from args obtain dv where "get_prop args (js ''days'') = Inr dv" by simp
  ultimately show ?thesis using that by blast
qed

lemma CallTool_valid_not_rejected:
  assumes "forecast_args_shape args"
  shows "result (CallTool e c (js ''get_forecast'') args) \<noteq> Inl (McpError code msg)"
proof -
  have valid: "isValidForecastArgs args"
    using assms by (simp add: isValidForecastArgs_shape)
  from assms obtain s dv where p: "get_prop args (js ''city'') = Inr (String s)"
      "get_prop args (js ''days'') = Inr dv"
    by (rule shape_props)
  from effective_days_number [OF valid p(2)] obtain D where D: "effective_days dv = Number D" ..
  show ?thesis
    unfolding CallTool_valid [OF valid p D]
    by (auto split: option.splits response.splits sum.splits
        dest: get_prop_fault error_text_fault)
qed

lemma CallTool_unknown:
  "name \<noteq> js ''get_forecast'' \<Longrightarrow>
   CallTool e c name args =
     \<lparr>result = Inl (McpError MethodNotFound (js ''Unknown tool: '' @ name)),
      cache = c, calls = []\<rparr>"
  by (simp add: CallTool_def)

lemma CallTool_invalid:
  "\<not> isValidForecastArgs args \<Longrightarrow>
   CallTool e c (js ''get_forecast'') args =
     \<lparr>result = Inl (McpError InvalidParams (js ''Invalid forecast arguments'')),
      cache = c, calls = []\<rparr>"
  by (simp add: CallTool_def)

text \<open>
  C5. A call-tool request with a name other than \<^verbatim>\<open>get_forecast\<close> throws
  \<^verbatim>\<open>MethodNotFound\<close>; with that name, arguments that are not an object with a string
  \<^verbatim>\<open>city\<close> and an absent or numeric \<^verbatim>\<open>days\<close> throw \<^verbatim>\<open>InvalidParams\<close>. In both cases
  the handler makes no upstream call and gives back the cache it was given; the reply is
  the same whatever the cache holds, so the cache is not read.
\<close>

theorem tool_call_rejections:
  "(name \<noteq> js ''get_forecast'' \<longrightarrow>
      CallTool e c name args =
        \<lparr>result = Inl (McpError MethodNotFound (js ''Unknown tool: '' @ name)),
         cache = c, calls = []\<rparr>) \<and>
   (name = js ''get_forecast'' \<and> \<not> forecast_args_shape args \<longrightarrow>
      CallTool e c name args =
        \<lparr>result = Inl (McpError InvalidParams (js ''Invalid forecast arguments'')),
         cache = c, calls = []\<rparr>)"
proof (intro conjI impI)
  assume "name \<noteq> js ''get_forecast''"
  then show "CallTool e c name args =
        \<lparr>result = Inl (McpError MethodNotFound (js ''Unknown tool: '' @ name)),
         cache = c, calls = []\<rparr>"
    by (rule CallTool_unknown)
next
  assume a: "name = js ''get_forecast'' \<and> \<not> forecast_args_shape args"
  then have "\<not> isValidForecastArgs args" by (simp add: isValidForecastArgs_shape)
  then show "CallTool e c name args =
        \<lparr>result = Inl (McpError InvalidParams (js ''Invalid forecast arguments'')),
         cache = c, calls = []\<rparr>"
    using a by (simp add: CallTool_invalid)
qed

theorem tool_call_rejections_witness:
  "js ''unknown_tool'' \<noteq> js ''get_forecast'' \<and>
   CallTool e0 Map.empty (js ''unknown_tool'') (Object []) =
     \<lparr>result = Inl (McpError MethodNotFound (js ''Unknown tool: unknown_tool'')),
      cache = Map.empty, calls = []\<rparr> \<and>
   \<not> forecast_args_shape (Object [(js ''days'', Number (Finite 3))]) \<and>
   CallTool e0 Map.empty (js ''get_forecast'') (Object [(js ''days'', Number (Finite 3))]) =
     \<lparr>result = Inl (McpError InvalidParams (js ''Invalid forecast arguments'')),
      cache = Map.empty, calls = []\<rparr>"
proof -
  have n: "js ''unknown_tool'' \<noteq> js ''get_forecast''" by (simp add: js_def)
  have s: "\<not> forecast_args_shape (Object [(js ''days'', Number (Finite 3))])"
    by (simp add: forecast_args_shape_def js_def)
  from tool_call_rejections [of "js ''unknown_tool''" e0 Map.empty "Object []"] n
  have 1: "CallTool e0 Map.empty (js ''unknown_tool'') (Object []) =
     \<lparr>result = Inl (McpError MethodNotFound (js ''Unknown tool: '' @ js ''unknown_tool'')),
      cache = Map.empty, calls = []\<rparr>" by blast
  from tool_call_rejections [of "js ''get_forecast''" e0 Map.empty
      "Object [(js ''days'', Number (Finite 3))]"] s
  have 2: "CallTool e0 Map.empty (js ''get_forecast'') (Object [(js ''days'', Number (Finite 3))]) =
     \<lparr>result = Inl (McpError InvalidParams (js ''Invalid forecast arguments'')),
      cache = Map.empty, calls = []\<rparr>" by blast
  have j: "js ''Unknown tool: '' @ js ''unknown_tool'' = js ''Unknown tool: unknown_tool''"
    by (simp add: js_def)
  show ?thesis using n s 1 2 unfolding j by blast
qed

subsection \<open>The accepted arguments\<close>

text \<open>
  C7, as the claim states it, fails: \<^verbatim>\<open>{ city: "London", days: 7 }\<close> is outside the
  documented shape and passes the validator; the handler goes on to ask the upstream for
  40 samples.
\<close>

theorem days_out_of_range_accepted:
  "isValidForecastArgs (london_args 7) \<and>
   \<not> ForecastArgs (london_args 7) \<and>
   calls (CallTool e0 Map.empty (js ''get_forecast'') (london_args 7)) =
     [Get (js ''forecast'') [(js ''q'', String (js ''London'')), (js ''cnt'', Number (Finite 40))]]"
  by (simp add: evaluation ForecastArgs_def)

text \<open>
  C7, amended. The validator accepts exactly the objects with a string \<^verbatim>\<open>city\<close> and with
  \<^verbatim>\<open>days\<close> absent or a number, whatever the number: no range is checked. All values of
  the documented shape are among them. The handler validates before it uses the
  arguments: it throws \<^verbatim>\<open>InvalidParams\<close> exactly for the values the validator refuses.
\<close>

theorem accepted_forecast_args:
  "isValidForecastArgs args = forecast_args_shape args \<and>
   (ForecastArgs args \<longrightarrow> isValidForecastArgs args) \<and>
   (result (CallTool e c (js ''get_forecast'') args) =
      Inl (McpError InvalidParams (js ''Invalid forecast arguments''))) =
     (\<not> isValidForecastArgs args)"
proof (intro conjI)
  show shape: "isValidForecastArgs args = forecast_args_shape args"
    by (rule isValidForecastArgs_shape)
  show "ForecastArgs args \<longrightarrow> isValidForecastArgs args"
    unfolding shape
    by (auto simp: ForecastArgs_def forecast_args_shape_def
        split: jsval.splits option.splits jsnum.splits)
  show "(result (CallTool e c (js ''get_forecast'') args) =
      Inl (McpError InvalidParams (js ''Invalid forecast arguments''))) =
     (\<not> isValidForecastArgs args)"
  proof (cases "isValidForecastArgs args")
    case True
    then have "forecast_args_shape args" by (simp add: shape)
    from CallTool_valid_not_rejected [OF this] True show ?thesis by simp
  next
    case False
    then show ?thesis by (simp add: CallTool_invalid)
  qed
qed

theorem accepted_forecast_args_witness:
  "ForecastArgs (london_args 3) \<and> isValidForecastArgs (london_args 3) \<and>
   forecast_args_shape (london_args (- 2)) \<and> isValidForecastArgs (london_args (- 2)) \<and>
   result (CallTool e0 Map.empty (js ''get_forecast'') (london_args (- 2))) \<noteq>
      Inl (McpError InvalidParams (js ''Invalid forecast arguments''))"
proof -
  have a: "ForecastArgs (london_args 3)"
    by (simp add: ForecastArgs_def london_args_def js_def)
  have b: "forecast_args_shape (london_args (- 2))"
    by (simp add: forecast_args_shape_def london_args_def js_def)
  note t3 = accepted_forecast_args [of "london_args 3" e0 Map.empty]
  note t2 = accepted_forecast_args [of "london_args (- 2)" e0 Map.empty]
  from t3 a have c: "isValidForecastArgs (london_args 3)" by blast
  from t2 b have d: "isValidForecastArgs (london_args (- 2))" by blast
  from t2 d have "result (CallTool e0 Map.empty (js ''get_forecast'') (london_args (- 2))) \<noteq>
      Inl (McpError InvalidParams (js ''Invalid forecast arguments''))" by blast
  with a b c d show ?thesis by blast
qed

subsection \<open>The day count of a forecast\<close>






subsection \<open>Day counts below the range\<close>




subsection \<open>Cached reads\<close>

lemma ReadResource_served:
  assumes "uri_match u = Some segment" and "decodeURIComponent segment = Some city"
    and "fresh (now e) (c (js ''current_weather_'' @ city)) = Some cached"
  shows "ReadResource e c u =
     \<lparr>result = Inr [\<lparr>uri = u, mimeType = js ''application/json'',
                      text' = JSON_stringify (data cached)\<rparr>],
      cache = c, calls = []\<rparr>"
  by (simp add: ReadResource_city [OF assms(1,2)] assms(3))

lemma ReadResource_asks:
  assumes "uri_match u = Some segment" and "decodeURIComponent segment = Some city"
    and "fresh (now e) (c (js ''current_weather_'' @ city)) = None"
  shows "calls (ReadResource e c u) = [Get (js ''weather'') [(js ''q'', String city)]]"
  by (simp add: ReadResource_city [OF assms(1,2)] assms(3) split: response.split sum.split)

lemma ReadResource_stores:
  assumes "uri_match u = Some segment" and "decodeURIComponent segment = Some city"
    and "fresh (now e) (c (js ''current_weather_'' @ city)) = None"
    and "upstream e (Get (js ''weather'') [(js ''q'', String city)]) = Resolved d"
    and "weatherData d (toISOString e) = Inr w"
  shows "ReadResource e c u =
     \<lparr>result = Inr [\<lparr>uri = u, mimeType = js ''application/json'', text' = JSON_stringify w\<rparr>],
      cache = c(js ''current_weather_'' @ city \<mapsto> \<lparr>data = w, timestamp = now e\<rparr>),
      calls = [Get (js ''weather'') [(js ''q'', String city)]]\<rparr>"
  by (simp add: ReadResource_city [OF assms(1,2)] assms(3-5))




subsection \<open>Fetched snapshots\<close>

text \<open>
  C8, as the claim states it, fails when the upstream answers successfully with a payload
  that lacks \<^verbatim>\<open>main\<close>: the read of \<^verbatim>\<open>response.data.main.temp\<close> throws a \<^verbatim>\<open>TypeError\<close>,
  which is not an error of the HTTP client and is rethrown. No snapshot is returned and
  none is cached.
\<close>

theorem payload_without_main_aborts:
  "ReadResource e_empty Map.empty (js ''weather://London/current'') =
     \<lparr>result = Inl TypeError, cache = Map.empty,
      calls = [Get (js ''weather'') [(js ''q'', String (js ''London''))]]\<rparr>"
  by (simp add: evaluation e_empty_def)

text \<open>
  C8, amended. A read-resource request that misses the cache (no entry under the key, or
  a stale one) and whose upstream fetch succeeds with a payload \<open>d\<close> of which
  \<^verbatim>\<open>main\<close>, \<^verbatim>\<open>weather[0]\<close> and \<^verbatim>\<open>wind\<close> can be read (none of \<open>d\<close>, \<^verbatim>\<open>d.main\<close>,
  \<^verbatim>\<open>d.weather\<close>, \<^verbatim>\<open>d.weather[0]\<close>, \<^verbatim>\<open>d.wind\<close> is \<^verbatim>\<open>null\<close> or \<^verbatim>\<open>undefined\<close>) returns
  and caches the snapshot with \<^verbatim>\<open>temperature\<close> from \<^verbatim>\<open>main.temp\<close>, \<^verbatim>\<open>conditions\<close> from
  \<^verbatim>\<open>weather[0].description\<close>, \<^verbatim>\<open>humidity\<close> from \<^verbatim>\<open>main.humidity\<close>, \<^verbatim>\<open>wind_speed\<close> from
  \<^verbatim>\<open>wind.speed\<close>, and a \<^verbatim>\<open>timestamp\<close> that is the text of the clock at the time of the
  read, whatever the payload holds. The entry is stamped with \<^verbatim>\<open>Date.now()\<close> of the
  request.
\<close>

theorem fetched_snapshot:
  assumes "uri_match u = Some segment" and "decodeURIComponent segment = Some city"
    and "fresh (now e) (c (js ''current_weather_'' @ city)) = None"
    and "upstream e (Get (js ''weather'') [(js ''q'', String city)]) = Resolved d"
    and "get_prop d (js ''main'') = Inr main"
    and "get_prop main (js ''temp'') = Inr temp"
    and "get_prop main (js ''humidity'') = Inr humidity"
    and "get_prop d (js ''weather'') = Inr weather"
    and "get_0 weather = Inr weather0"
    and "get_prop weather0 (js ''description'') = Inr description"
    and "get_prop d (js ''wind'') = Inr wind"
    and "get_prop wind (js ''speed'') = Inr speed"
    and "snapshot = Object
           [(js ''temperature'', temp),
            (js ''conditions'', description),
            (js ''humidity'', humidity),
            (js ''wind_speed'', speed),
            (js ''timestamp'', String (toISOString e))]"
  shows "ReadResource e c u =
     \<lparr>result = Inr [\<lparr>uri = u, mimeType = js ''application/json'',
                      text' = JSON_stringify snapshot\<rparr>],
      cache = c(js ''current_weather_'' @ city \<mapsto> \<lparr>data = snapshot, timestamp = now e\<rparr>),
      calls = [Get (js ''weather'') [(js ''q'', String city)]]\<rparr>"
proof -
  have "weatherData d (toISOString e) = Inr snapshot"
    using assms(5-13) by (simp add: weatherData_def and_then_def)
  with assms(1-4) show ?thesis
    by (rule ReadResource_stores [where c = c and e = e])
qed

theorem fetched_snapshot_witness:
  "uri_match (js ''weather://London/current'') = Some (js ''London'') \<and>
   decodeURIComponent (js ''London'') = Some (js ''London'') \<and>
   fresh (now e0) (Map.empty (js ''current_weather_London'')) = None \<and>
   upstream e0 (Get (js ''weather'') [(js ''q'', String (js ''London''))]) = Resolved london \<and>
   get_prop london (js ''dt'') = Inr (Number (Finite 1700000000)) \<and>
   ReadResource e0 Map.empty (js ''weather://London/current'') =
     \<lparr>result = Inr [\<lparr>uri = js ''weather://London/current'', mimeType = js ''application/json'',
                      text' = JSON_stringify london_snapshot\<rparr>],
      cache = [js ''current_weather_London'' \<mapsto> \<lparr>data = london_snapshot, timestamp = 1000\<rparr>],
      calls = [Get (js ''weather'') [(js ''q'', String (js ''London''))]]\<rparr>"
proof -
  have m: "uri_match (js ''weather://London/current'') = Some (js ''London'')"
    by (simp add: uri_match_def line_terminator_def js_def)
  have d: "decodeURIComponent (js ''London'') = Some (js ''London'')"
    by (simp add: js_def)
  have f: "fresh (now e0) (Map.empty (js ''current_weather_'' @ js ''London'')) = None"
    by (simp add: fresh_def)
  have up: "upstream e0 (Get (js ''weather'') [(js ''q'', String (js ''London''))]) = Resolved london"
    by (simp add: e0_def)
  have p: "get_prop london (js ''main'') =
        Inr (Object [(js ''temp'', Number (Finite 12)), (js ''humidity'', Number (Finite 81))])"
      "get_prop (Object [(js ''temp'', Number (Finite 12)), (js ''humidity'', Number (Finite 81))])
         (js ''temp'') = Inr (Number (Finite 12))"
      "get_prop (Object [(js ''temp'', Number (Finite 12)), (js ''humidity'', Number (Finite 81))])
         (js ''humidity'') = Inr (Number (Finite 81))"
      "get_prop london (js ''weather'') =
        Inr (Array [Object [(js ''description'', String (js ''light rain''))]])"
      "get_0 (Array [Object [(js ''description'', String (js ''light rain''))]]) =
        Inr (Object [(js ''description'', String (js ''light rain''))])"
      "get_prop (Object [(js ''description'', String (js ''light rain''))]) (js ''description'') =
        Inr (String (js ''light rain''))"
      "get_prop london (js ''wind'') = Inr (Object [(js ''speed'', Number (Finite 4))])"
      "get_prop (Object [(js ''speed'', Number (Finite 4))]) (js ''speed'') = Inr (Number (Finite 4))"
    by (simp_all add: london_def js_def)
  have s: "london_snapshot = Object
           [(js ''temperature'', Number (Finite 12)),
            (js ''conditions'', String (js ''light rain'')),
            (js ''humidity'', Number (Finite 81)),
            (js ''wind_speed'', Number (Finite 4)),
            (js ''timestamp'', String (toISOString e0))]"
    by (simp add: london_snapshot_def e0_def)
  have dt: "get_prop london (js ''dt'') = Inr (Number (Finite 1700000000))"
    by (simp add: london_def js_def)
  have k: "js ''current_weather_'' @ js ''London'' = js ''current_weather_London''"
    by (simp add: js_def)
  have n: "now e0 = 1000" by (simp add: e0_def)
  note t = fetched_snapshot [where c = Map.empty and e = e0, OF m d f up p s]
  show ?thesis using m d f up dt t unfolding k n by simp
qed

subsection \<open>Accepted resource URIs\<close>

lemma ReadResource_other_keys:
  assumes "uri_match u = Some segment" and "decodeURIComponent segment = Some city"
    and "k \<noteq> js ''current_weather_'' @ city"
  shows "cache (ReadResource e c u) k = c k"
  using assms(3)
  by (simp add: ReadResource_city [OF assms(1,2)]
      split: option.split response.split sum.split)

text \<open>
  C10, as the claim states it, fails twice. The \<^verbatim>\<open>.\<close> of the pattern matches no line
  terminator, so a URI \<^verbatim>\<open>weather://<X>/current\<close> whose \<open>X\<close> holds a line feed is refused
  as an invalid request; and \<^verbatim>\<open>decodeURIComponent\<close> throws a \<^verbatim>\<open>URIError\<close> on an \<open>X\<close>
  that is not a well-formed percent-encoding, such as \<^verbatim>\<open>%\<close>, so there is no decoded city.
\<close>

theorem line_feed_or_bad_escape_refused:
  "ReadResource e0 Map.empty (js ''weather://a'' @ [0x0A] @ js ''b/current'') =
     \<lparr>result = Inl (McpError InvalidRequest
                 (js ''Invalid URI format: weather://a'' @ [0x0A] @ js ''b/current'')),
      cache = Map.empty, calls = []\<rparr> \<and>
   ReadResource e0 Map.empty (js ''weather://%/current'') =
     \<lparr>result = Inl URIError, cache = Map.empty, calls = []\<rparr>"
  by (simp add: evaluation)

text \<open>
  C10, amended. Every URI \<^verbatim>\<open>weather://<X>/current\<close> whose \<open>X\<close> is not empty and holds no
  line terminator (line feed, carriage return, U+2028, U+2029) matches the pattern with
  the whole of \<open>X\<close> as the city segment, which may hold \<^verbatim>\<open>/\<close>: the segment of
  \<^verbatim>\<open>weather://a/b/current\<close> is \<^verbatim>\<open>a/b\<close>, that of \<^verbatim>\<open>weather://a/current/current\<close> is
  \<^verbatim>\<open>a/current\<close>. When \<open>X\<close> is a well-formed percent-encoding, its URL-decoding is the
  city of the cache key \<^verbatim>\<open>current_weather_<city>\<close> (a fresh entry under it is served,
  no other key is written) and of the upstream query; when it is not, the request fails
  with a \<^verbatim>\<open>URIError\<close> before the cache or the upstream is used.
\<close>

theorem resource_uri_accepted:
  assumes "x \<noteq> []" and "\<forall>unit\<in>set x. \<not> line_terminator unit"
    and "u = js ''weather://'' @ x @ js ''/current''"
  shows "uri_match u = Some x \<and>
    uri_match (js ''weather://a/b/current'') = Some (js ''a/b'') \<and>
    uri_match (js ''weather://a/current/current'') = Some (js ''a/current'') \<and>
    (decodeURIComponent x = None \<longrightarrow>
       ReadResource e c u = \<lparr>result = Inl URIError, cache = c, calls = []\<rparr>) \<and>
    (\<forall>city. decodeURIComponent x = Some city \<longrightarrow>
       (\<forall>cached. fresh (now e) (c (js ''current_weather_'' @ city)) = Some cached \<longrightarrow>
          ReadResource e c u =
            \<lparr>result = Inr [\<lparr>uri = u, mimeType = js ''application/json'',
                             text' = JSON_stringify (data cached)\<rparr>],
             cache = c, calls = []\<rparr>) \<and>
       (fresh (now e) (c (js ''current_weather_'' @ city)) = None \<longrightarrow>
          calls (ReadResource e c u) = [Get (js ''weather'') [(js ''q'', String city)]]) \<and>
       (\<forall>k. k \<noteq> js ''current_weather_'' @ city \<longrightarrow> cache (ReadResource e c u) k = c k))"
proof -
  have m: "uri_match u = Some x"
    using assms by (simp add: uri_match_iff)
  have ab: "uri_match (js ''weather://a/b/current'') = Some (js ''a/b'')"
    and ac: "uri_match (js ''weather://a/current/current'') = Some (js ''a/current'')"
    by (simp_all add: uri_match_def line_terminator_def js_def)
  have bad: "ReadResource e c u = \<lparr>result = Inl URIError, cache = c, calls = []\<rparr>"
    if "decodeURIComponent x = None"
    using m that by (simp add: ReadResource_def)
  have served: "ReadResource e c u =
            \<lparr>result = Inr [\<lparr>uri = u, mimeType = js ''application/json'',
                             text' = JSON_stringify (data cached)\<rparr>],
             cache = c, calls = []\<rparr>"
    if "decodeURIComponent x = Some city"
      and "fresh (now e) (c (js ''current_weather_'' @ city)) = Some cached" for city cached
    using m that by (rule ReadResource_served [where c = c and e = e])
  have asks: "calls (ReadResource e c u) = [Get (js ''weather'') [(js ''q'', String city)]]"
    if "decodeURIComponent x = Some city"
      and "fresh (now e) (c (js ''current_weather_'' @ city)) = None" for city
    using m that by (rule ReadResource_asks [where c = c and e = e])
  have others: "cache (ReadResource e c u) k = c k"
    if "decodeURIComponent x = Some city" and "k \<noteq> js ''current_weather_'' @ city" for city k
    using m that by (rule ReadResource_other_keys)
  show ?thesis
    using m ab ac bad served asks others by (intro conjI allI impI) blast+
qed

theorem resource_uri_accepted_witness:
  "js ''San%20Francisco/north'' \<noteq> [] \<and>
   list_all (\<lambda>unit. \<not> line_terminator unit) (js ''San%20Francisco/north'') \<and>
   uri_match (js ''weather://San%20Francisco/north/current'') = Some (js ''San%20Francisco/north'') \<and>
   decodeURIComponent (js ''San%20Francisco/north'') = Some (js ''San Francisco/north'') \<and>
   fresh (now e0) (Map.empty (js ''current_weather_San Francisco/north'')) = None \<and>
   calls (ReadResource e0 Map.empty (js ''weather://San%20Francisco/north/current'')) =
     [Get (js ''weather'') [(js ''q'', String (js ''San Francisco/north''))]] \<and>
   js ''forecast_London_3'' \<noteq> js ''current_weather_San Francisco/north'' \<and>
   cache (ReadResource e0 warm (js ''weather://San%20Francisco/north/current''))
      (js ''forecast_London_3'') = warm (js ''forecast_London_3'') \<and>
   js ''%41'' \<noteq> [] \<and>
   list_all (\<lambda>unit. \<not> line_terminator unit) (js ''%41'') \<and>
   decodeURIComponent (js ''%41'') = Some (js ''A'') \<and>
   js ''%4'' \<noteq> [] \<and>
   list_all (\<lambda>unit. \<not> line_terminator unit) (js ''%4'') \<and>
   decodeURIComponent (js ''%4'') = None \<and>
   ReadResource e0 warm (js ''weather://%4/current'') =
     \<lparr>result = Inl URIError, cache = warm, calls = []\<rparr>"
proof -
  have n: "js ''San%20Francisco/north'' \<noteq> []" "js ''%4'' \<noteq> []" "js ''%41'' \<noteq> []"
    by (simp_all add: js_def)
  have l: "\<forall>unit\<in>set (js ''San%20Francisco/north''). \<not> line_terminator unit"
      "\<forall>unit\<in>set (js ''%4''). \<not> line_terminator unit"
      "\<forall>unit\<in>set (js ''%41''). \<not> line_terminator unit"
    by (simp_all add: js_def line_terminator_def)
  have u: "js ''weather://San%20Francisco/north/current'' =
      js ''weather://'' @ js ''San%20Francisco/north'' @ js ''/current''"
      "js ''weather://%4/current'' = js ''weather://'' @ js ''%4'' @ js ''/current''"
    by (simp_all add: js_def)
  have d: "decodeURIComponent (js ''San%20Francisco/north'') = Some (js ''San Francisco/north'')"
    and d4: "decodeURIComponent (js ''%4'') = None"
    and d41: "decodeURIComponent (js ''%41'') = Some (js ''A'')"
    by (simp_all add: js_def hex_value_def)
  have f: "fresh (now e0) (Map.empty (js ''current_weather_'' @ js ''San Francisco/north'')) = None"
    by (simp add: fresh_def)
  have k: "js ''forecast_London_3'' \<noteq> js ''current_weather_'' @ js ''San Francisco/north''"
    by (simp add: js_def)
  note t = resource_uri_accepted [OF n(1) l(1) u(1), of e0 Map.empty]
  note city = t [THEN conjunct2, THEN conjunct2, THEN conjunct2, THEN conjunct2, THEN spec,
      THEN mp, OF d]
  note asks = city [THEN conjunct2, THEN conjunct1, THEN mp, OF f]
  note tw = resource_uri_accepted [OF n(1) l(1) u(1), of e0 warm]
  note others = tw [THEN conjunct2, THEN conjunct2, THEN conjunct2, THEN conjunct2, THEN spec,
      THEN mp, OF d, THEN conjunct2, THEN conjunct2, THEN spec, THEN mp, OF k]
  note t4 = resource_uri_accepted [OF n(2) l(2) u(2), of e0 warm]
  note bad = t4 [THEN conjunct2, THEN conjunct2, THEN conjunct2, THEN conjunct1, THEN mp, OF d4]
  have l': "list_all (\<lambda>unit. \<not> line_terminator unit) (js ''San%20Francisco/north'')"
      "list_all (\<lambda>unit. \<not> line_terminator unit) (js ''%4'')"
      "list_all (\<lambda>unit. \<not> line_terminator unit) (js ''%41'')"
    using l by (simp_all add: list_all_iff)
  have k': "js ''current_weather_'' @ js ''San Francisco/north'' = js ''current_weather_San Francisco/north''"
    by (simp add: js_def)
  show ?thesis
    using n l' t [THEN conjunct1] d d4 d41 f asks k others bad unfolding k' by simp
qed

subsection \<open>Upstream failures\<close>

lemma error_text_no_response:
  "error_text None message = Inr (js ''Weather API error: '' @ message)"
  by (simp add: error_text_def and_then_def coalesce_def nullish_def)

lemma error_text_message:
  "map_of kvs (js ''message'') = Some (String m) \<Longrightarrow>
   error_text (Some (Object kvs)) message = Inr (js ''Weather API error: '' @ m)"
  by (simp add: error_text_def and_then_def coalesce_def nullish_def)

lemma error_text_no_message:
  "map_of kvs (js ''message'') = None \<Longrightarrow>
   error_text (Some (Object kvs)) message = Inr (js ''Weather API error: '' @ message)"
  by (simp add: error_text_def and_then_def coalesce_def nullish_def)

text \<open>
  How the two handlers report an error of the HTTP client whose message
  \<^verbatim>\<open>error.response?.data.message ?? error.message\<close> can be formed: the read handler throws
  an \<^verbatim>\<open>InternalError\<close> with the text, the tool handler returns the text as content, flagged
  \<^verbatim>\<open>isError: true\<close>. Neither touches the cache.
\<close>

lemma upstream_failure_reports:
  assumes "error_text response_data message = Inr t"
  shows "uri_match u = Some segment \<Longrightarrow> decodeURIComponent segment = Some city \<Longrightarrow>
      fresh (now e) (c (js ''current_weather_'' @ city)) = None \<Longrightarrow>
      upstream e (Get (js ''weather'') [(js ''q'', String city)]) =
        AxiosError response_data message \<Longrightarrow>
      ReadResource e c u =
        \<lparr>result = Inl (McpError InternalError t), cache = c,
         calls = [Get (js ''weather'') [(js ''q'', String city)]]\<rparr>"
    and "isValidForecastArgs args \<Longrightarrow> get_prop args (js ''city'') = Inr (String s) \<Longrightarrow>
      get_prop args (js ''days'') = Inr dv \<Longrightarrow> effective_days dv = Number D \<Longrightarrow>
      fresh (now e) (c (js ''forecast_'' @ s @ js ''_'' @ Number_toString D)) = None \<Longrightarrow>
      upstream e (Get (js ''forecast'')
        [(js ''q'', String s), (js ''cnt'', Number (num_times D (Finite 8)))]) =
        AxiosError response_data message \<Longrightarrow>
      CallTool e c (js ''get_forecast'') args =
        \<lparr>result = Inr \<lparr>content = [Text (String t)], isError = Some True\<rparr>, cache = c,
         calls = [Get (js ''forecast'')
           [(js ''q'', String s), (js ''cnt'', Number (num_times D (Finite 8)))]]\<rparr>"
  using assms by (simp_all add: ReadResource_city CallTool_valid)

text \<open>
  C3 fails on the code for an error of the HTTP client that carries a response whose
  \<^verbatim>\<open>data\<close> is \<^verbatim>\<open>null\<close>: \<^verbatim>\<open>error.response?.data.message\<close> guards \<^verbatim>\<open>response\<close> only, the
  read of \<^verbatim>\<open>message\<close> on \<^verbatim>\<open>null\<close> throws a \<^verbatim>\<open>TypeError\<close> inside the \<^verbatim>\<open>catch\<close> block, and
  the tool call is aborted with it instead of returning content flagged \<^verbatim>\<open>isError\<close>; the
  read handler throws the same \<^verbatim>\<open>TypeError\<close> instead of its \<^verbatim>\<open>InternalError\<close>.
\<close>

theorem null_error_body_aborts_tool_call:
  "CallTool e_null Map.empty (js ''get_forecast'') nowhere_args =
     \<lparr>result = Inl TypeError, cache = Map.empty,
      calls = [Get (js ''forecast'')
                 [(js ''q'', String (js ''Nowhere'')), (js ''cnt'', Number (Finite 24))]]\<rparr> \<and>
   ReadResource e_null Map.empty (js ''weather://Nowhere/current'') =
     \<lparr>result = Inl TypeError, cache = Map.empty,
      calls = [Get (js ''weather'') [(js ''q'', String (js ''Nowhere''))]]\<rparr>"
  by (simp add: evaluation e_null_def nowhere_args_def)

subsection \<open>Failures are not cached\<close>













end
